theory Spec2Isabelle
  imports
    Complex_Main
    "HOL-Library.Char_ord"
    "HOL-Library.List_Lexorder"
    "HOL-Library.Sublist"
    "HOL-Library.AList"
begin

section \<open>Fallback directory selection: scripts/maint/updateFallbackDirs.py\<close>

text \<open>
  A shallow embedding of the candidate class, the candidate list and the reporting part
  of \<^verbatim>\<open>list_fallbacks\<close>. Python exceptions are values of type \<open>error\<close>; a function
  that can raise returns \<open>error + 'a\<close>. Python 2 byte strings are \<open>string\<close>. Integers
  are \<open>int\<close>; the float arithmetic of the script is carried out exactly, in \<open>rat\<close>.
  A \<^verbatim>\<open>datetime\<close> is the number of microseconds since the epoch and a
  \<^verbatim>\<open>timedelta\<close> a number of microseconds, both \<open>int\<close>.
\<close>

subsection \<open>Exceptions\<close>

datatype error =
    MissingField string      \<comment> \<open>\<^verbatim>\<open>raise Exception("Document has no %s field.")\<close>\<close>
  | NoOrPort string          \<comment> \<open>\<^verbatim>\<open>raise Exception("Failed to get an orport for %s.")\<close>\<close>
  | NoRelays                 \<comment> \<open>\<^verbatim>\<open>raise Exception("No relays found in document.")\<close>\<close>
  | ValueError
  | KeyError
  | AttributeError
  | UnboundLocalError
  | ZeroDivisionError

subsection \<open>Python string operations\<close>

text \<open>\<^verbatim>\<open>s.split(c)\<close> for a one-character separator: never empty.\<close>

fun py_split :: "char \<Rightarrow> string \<Rightarrow> string list" where
  "py_split c [] = [[]]"
| "py_split c (x # xs) =
     (if x = c then [] # py_split c xs
      else (case py_split c xs of
              w # ws \<Rightarrow> (x # w) # ws
            | [] \<Rightarrow> [[x]]))"

text \<open>\<^verbatim>\<open>s.split(c, n)\<close>: at most \<open>n\<close> cuts, from the left.\<close>

fun py_split_max :: "char \<Rightarrow> nat \<Rightarrow> string \<Rightarrow> string list" where
  "py_split_max c 0 s = [s]"
| "py_split_max c (Suc n) s =
     (if c \<in> set s
      then takeWhile (\<lambda>x. x \<noteq> c) s # py_split_max c n (tl (dropWhile (\<lambda>x. x \<noteq> c) s))
      else [s])"

text \<open>\<^verbatim>\<open>s.rsplit(c, 1)\<close>: one cut at the last separator, if there is one.\<close>

definition py_rsplit1 :: "char \<Rightarrow> string \<Rightarrow> string list" where
  "py_rsplit1 c s =
     (if c \<in> set s
      then [rev (tl (dropWhile (\<lambda>x. x \<noteq> c) (rev s))), rev (takeWhile (\<lambda>x. x \<noteq> c) (rev s))]
      else [s])"

text \<open>\<^verbatim>\<open>sub in s\<close>.\<close>

fun py_in :: "string \<Rightarrow> string \<Rightarrow> bool" where
  "py_in sub [] = (sub = [])"
| "py_in sub (x # xs) = (prefix sub (x # xs) \<or> py_in sub xs)"

text \<open>\<^verbatim>\<open>s.count("::")\<close>: occurrences that do not overlap, from the left.\<close>

fun count_double_colon :: "string \<Rightarrow> nat" where
  "count_double_colon (a # b # rest) =
     (if a = CHR '':'' \<and> b = CHR '':'' then Suc (count_double_colon rest)
      else count_double_colon (b # rest))"
| "count_double_colon [a] = 0"
| "count_double_colon [] = 0"

definition is_digit :: "char \<Rightarrow> bool" where
  "is_digit c = (CHR ''0'' \<le> c \<and> c \<le> CHR ''9'')"

text \<open>\<^verbatim>\<open>s.isdigit()\<close>: at least one character, all of them digits.\<close>

definition py_isdigit :: "string \<Rightarrow> bool" where
  "py_isdigit s = (s \<noteq> [] \<and> list_all is_digit s)"

definition digit_val :: "char \<Rightarrow> int" where
  "digit_val c = int (of_char c) - 48"

definition digits_val :: "string \<Rightarrow> int" where
  "digits_val s = foldl (\<lambda>acc c. 10 * acc + digit_val c) 0 s"

definition is_space :: "char \<Rightarrow> bool" where
  \<comment> \<open>\<^verbatim>\<open>string.whitespace\<close>: tab, newline, vertical tab, form feed, return, space\<close>
  "is_space c = (c \<in> set [CHR 0x09, CHR 0x0A, CHR 0x0B, CHR 0x0C, CHR 0x0D, CHR 0x20])"

definition py_strip :: "string \<Rightarrow> string" where
  "py_strip s = rev (dropWhile is_space (rev (dropWhile is_space s)))"

text \<open>
  \<^verbatim>\<open>int(s)\<close> for a string: surrounding whitespace is dropped, one sign is allowed,
  the rest must be decimal digits; anything else raises \<^verbatim>\<open>ValueError\<close> (\<open>None\<close>).
\<close>

definition py_int :: "string \<Rightarrow> int option" where
  "py_int s =
     (case py_strip s of
        [] \<Rightarrow> None
      | c # cs \<Rightarrow>
          if c = CHR ''-'' then (if py_isdigit cs then Some (- digits_val cs) else None)
          else if c = CHR ''+'' then (if py_isdigit cs then Some (digits_val cs) else None)
          else if py_isdigit (c # cs) then Some (digits_val (c # cs)) else None)"

subsection \<open>Address literals\<close>

text \<open>The loop of \<^verbatim>\<open>is_valid_ipv4_address\<close> over the dot-separated entries.\<close>

fun ipv4_entries :: "string list \<Rightarrow> bool" where
  "ipv4_entries [] = True"
| "ipv4_entries (entry # rest) =
     (if \<not> py_isdigit entry \<or> digits_val entry < 0 \<or> digits_val entry > 255 then False
      else if take 1 entry = ''0'' \<and> length entry > 1 then False
      else ipv4_entries rest)"

definition is_valid_ipv4_address :: "string \<Rightarrow> bool" where
  "is_valid_ipv4_address address =
     (if count_list address CHR ''.'' \<noteq> 3 then False
      else ipv4_entries (py_split CHR ''.'' address))"

text \<open>
  The character class \<^verbatim>\<open>[0-9a-fA-f]\<close> of the script's regular expression: the last
  range runs from \<open>A\<close> to lower-case \<open>f\<close>.
\<close>

definition re_class :: "char \<Rightarrow> bool" where
  "re_class c =
     ((CHR ''0'' \<le> c \<and> c \<le> CHR ''9'') \<or> (CHR ''a'' \<le> c \<and> c \<le> CHR ''f'')
      \<or> (CHR ''A'' \<le> c \<and> c \<le> CHR ''f''))"

text \<open>
  \<^verbatim>\<open>re.match("^[0-9a-fA-f]{0,4}$", entry)\<close>: at most four characters of the class,
  up to the end of the string; \<^verbatim>\<open>$\<close> also matches before a final newline.
\<close>

definition re_match_group :: "string \<Rightarrow> bool" where
  "re_match_group entry =
     (let body = (if entry \<noteq> [] \<and> last entry = CHR 0x0A then butlast entry else entry)
      in length body \<le> 4 \<and> list_all re_class body)"

text \<open>
  The loop of \<^verbatim>\<open>is_valid_ipv6_address\<close> over the colon-separated entries;
  the flag is \<^verbatim>\<open>found_ipv4_on_previous_entry\<close>.
\<close>

fun ipv6_entries :: "bool \<Rightarrow> string list \<Rightarrow> bool" where
  "ipv6_entries found [] = True"
| "ipv6_entries found (entry # rest) =
     (if found then False
      else if \<not> re_match_group entry then
        (if \<not> is_valid_ipv4_address entry then False
         else ipv6_entries True rest)
      else ipv6_entries found rest)"

definition is_valid_ipv6_address :: "string \<Rightarrow> bool" where
  "is_valid_ipv6_address address0 =
     (let address = butlast (tl address0);
          colon_count = count_list address CHR '':''
      in if colon_count > 7 then False
         else if colon_count \<noteq> 7 \<and> \<not> py_in ''::'' address then False
         else if count_double_colon address > 1 \<or> py_in '':::'' address then False
         else ipv6_entries False (py_split CHR '':'' address))"

text \<open>Hexadecimal digits, and a group of at most four of them.\<close>

definition is_hex :: "char \<Rightarrow> bool" where
  "is_hex c =
     ((CHR ''0'' \<le> c \<and> c \<le> CHR ''9'') \<or> (CHR ''a'' \<le> c \<and> c \<le> CHR ''f'')
      \<or> (CHR ''A'' \<le> c \<and> c \<le> CHR ''F''))"

definition hex_group :: "string \<Rightarrow> bool" where
  "hex_group g = (length g \<le> 4 \<and> list_all is_hex g)"


text \<open>
  The validator as the specification words it, for comparison with
  \<open>is_valid_ipv6_address\<close>: bracket delimiters are removed; at most 7 colons; exactly 7
  groups or exactly one \<^verbatim>\<open>::\<close>; no \<^verbatim>\<open>::::\<close>; every group a run of at most four
  hexadecimal digits, the final one possibly an IPv4 literal.
\<close>

definition spec_remove_brackets :: "string \<Rightarrow> string" where
  "spec_remove_brackets s = filter (\<lambda>c. c \<noteq> CHR ''['' \<and> c \<noteq> CHR '']'') s"

definition spec_valid_ipv6 :: "string \<Rightarrow> bool" where
  "spec_valid_ipv6 s =
     (let a = spec_remove_brackets s; groups = py_split CHR '':'' a
      in count_list a CHR '':'' \<le> 7
         \<and> (length groups = 7 \<or> count_double_colon a = 1)
         \<and> \<not> py_in ''::::'' a
         \<and> list_all hex_group (butlast groups)
         \<and> (hex_group (last groups) \<or> is_valid_ipv4_address (last groups)))"

subsection \<open>Configuration\<close>

definition OUTPUT_CANDIDATES :: bool where
  "OUTPUT_CANDIDATES = False"

definition PERFORM_IPV4_DIRPORT_CHECKS :: bool where
  "PERFORM_IPV4_DIRPORT_CHECKS = (if OUTPUT_CANDIDATES then False else True)"

definition PERFORM_IPV6_DIRPORT_CHECKS :: bool where
  "PERFORM_IPV6_DIRPORT_CHECKS = (if OUTPUT_CANDIDATES then False else False)"

definition INCLUDE_UNLISTED_ENTRIES :: bool where
  "INCLUDE_UNLISTED_ENTRIES = (if OUTPUT_CANDIDATES then True else False)"

definition BLACKLIST_EXCLUDES_WHITELIST_ENTRIES :: bool where
  "BLACKLIST_EXCLUDES_WHITELIST_ENTRIES = True"

definition ADDRESS_AND_PORT_STABLE_DAYS :: int where
  "ADDRESS_AND_PORT_STABLE_DAYS = 7"

definition CUTOFF_RUNNING :: rat where
  "CUTOFF_RUNNING = 95 / 100"

definition CUTOFF_V2DIR :: rat where
  "CUTOFF_V2DIR = 95 / 100"

definition CUTOFF_GUARD :: rat where
  "CUTOFF_GUARD = 95 / 100"

definition PERMITTED_BADEXIT :: rat where
  "PERMITTED_BADEXIT = 0"

definition AGE_ALPHA :: rat where
  "AGE_ALPHA = 99 / 100"

definition ONIONOO_SCALE_ONE :: rat where
  "ONIONOO_SCALE_ONE = 999"

definition FB_POG :: rat where
  "FB_POG = 2 / 10"

definition FALLBACK_PROPORTION_OF_GUARDS :: "rat option" where
  "FALLBACK_PROPORTION_OF_GUARDS = (if OUTPUT_CANDIDATES then None else Some FB_POG)"

definition MAX_FALLBACK_COUNT :: "int option" where
  "MAX_FALLBACK_COUNT = (if OUTPUT_CANDIDATES then None else Some 100)"

definition MIN_FALLBACK_COUNT :: int where
  "MIN_FALLBACK_COUNT = 100"

definition EXIT_BANDWIDTH_FRACTION :: rat where
  "EXIT_BANDWIDTH_FRACTION = 1"

definition MIN_BANDWIDTH :: "rat option" where
  "MIN_BANDWIDTH = Some (1024 / 10 * 30 * 1024)"

definition CONSENSUS_DOWNLOAD_SPEED_MAX :: rat where
  "CONSENSUS_DOWNLOAD_SPEED_MAX = 15"

subsection \<open>Times\<close>

type_synonym datetime = int

type_synonym timedelta = int

text \<open>
  The normalised fields of a \<^verbatim>\<open>timedelta\<close>: \<open>0 \<le> microseconds < 10^6\<close>,
  \<open>0 \<le> seconds < 86400\<close>, and the days carry the sign.
\<close>

definition td_days :: "timedelta \<Rightarrow> int" where
  "td_days td = td div (86400 * 1000000)"

definition td_seconds :: "timedelta \<Rightarrow> int" where
  "td_seconds td = (td mod (86400 * 1000000)) div 1000000"

definition td_microseconds :: "timedelta \<Rightarrow> int" where
  "td_microseconds td = td mod 1000000"

text \<open>\<^verbatim>\<open>datetime.timedelta(seconds = n)\<close> and \<^verbatim>\<open>datetime.timedelta(n)\<close> (days).\<close>

definition timedelta_seconds :: "int \<Rightarrow> timedelta" where
  "timedelta_seconds n = n * 1000000"

definition timedelta_days :: "int \<Rightarrow> timedelta" where
  "timedelta_days n = n * 86400 * 1000000"

subsection \<open>The candidate\<close>

text \<open>
  One relay of the details document. A field is \<open>None\<close> when the key is absent (for the
  optional keys, also when its value is null). The time stamp is held as
  \<^verbatim>\<open>parse_ts\<close> returns it.
\<close>

record details =
  fingerprint :: "string option"
  nickname :: "string option"
  last_changed_address_or_port :: "datetime option"
  consensus_weight :: "int option"
  or_addresses :: "string list option"
  dir_address :: "string option"
  contact :: "string option"
  flags :: "string list option"
  advertised_bandwidth :: "int option"
  recommended_version :: "bool option"

text \<open>
  The attribute \<^verbatim>\<open>_badexit\<close> does not exist until \<^verbatim>\<open>add_uptime\<close> sets it,
  to \<^verbatim>\<open>None\<close> or to a fraction.
\<close>

datatype badexit_state = NoAttribute | NoBadExitHistory | BadExitFraction rat

text \<open>
  A \<^verbatim>\<open>Candidate\<close>: the fields \<open>data_k\<close> are \<^verbatim>\<open>self._data['k']\<close> after the
  constructor has filled in the defaults, the others are the attributes.
\<close>

record candidate =
  data_fingerprint :: string
  data_nickname :: string
  data_contact :: "string option"
  data_flags :: "string list"
  data_advertised_bandwidth :: int
  data_consensus_weight :: int
  data_last_changed_address_or_port :: datetime
  data_or_addresses :: "string list"
  data_or_addresses_raw :: "string list"
  data_dir_address :: string
  data_recommended_version :: "bool option"
  data_measured_bandwidth :: "rat option"
  fpr :: string
  running :: rat
  guard :: rat
  v2dir :: rat
  badexit :: badexit_state
  dirip :: string
  dirport :: int
  orport :: int
  ipv6addr :: "string option"
  ipv6orport :: "string option"

text \<open>Python values of different types, for a comparison across types.\<close>

datatype pyval = PyStr string | PyInt int

definition stable_sort_or_addresses :: "string list \<Rightarrow> string list" where
  "stable_sort_or_addresses addrs = take 1 addrs @ sort (drop 1 addrs)"

text \<open>
  \<^verbatim>\<open>(self.dirip, _dirport) = dir_address.split(':', 2)\<close>: the unpacking raises unless
  there are exactly two parts.
\<close>

definition split_dirport :: "string \<Rightarrow> error + (string \<times> int)" where
  "split_dirport da =
     (case py_split_max CHR '':'' 2 da of
        [ip, p] \<Rightarrow> (case py_int p of None \<Rightarrow> Inl ValueError | Some n \<Rightarrow> Inr (ip, n))
      | _ \<Rightarrow> Inl ValueError)"

text \<open>The loop of \<^verbatim>\<open>_compute_orport\<close>; \<open>Inr None\<close> when it ends without a port.\<close>

fun compute_orport :: "string \<Rightarrow> string list \<Rightarrow> error + int option" where
  "compute_orport dip [] = Inr None"
| "compute_orport dip (i # rest) =
     (case py_rsplit1 CHR '':'' i of
        [ipaddr, port] \<Rightarrow>
          if ipaddr = dip \<and> is_valid_ipv4_address ipaddr
          then (case py_int port of None \<Rightarrow> Inl ValueError | Some n \<Rightarrow> Inr (Some n))
          else compute_orport dip rest
      | _ \<Rightarrow> Inl ValueError)"

text \<open>
  The first loop of \<^verbatim>\<open>_compute_ipv6addr\<close>. The port cut from the address is a
  string and \<^verbatim>\<open>self.orport\<close> an integer: the script compares the two with
  \<^verbatim>\<open>==\<close>.
\<close>

fun ipv6_same_port :: "int \<Rightarrow> string list \<Rightarrow> error + (string \<times> string) option" where
  "ipv6_same_port op [] = Inr None"
| "ipv6_same_port op (i # rest) =
     (case py_rsplit1 CHR '':'' i of
        [ipaddr, port] \<Rightarrow>
          if PyStr port = PyInt op \<and> is_valid_ipv6_address ipaddr
          then Inr (Some (ipaddr, port))
          else ipv6_same_port op rest
      | _ \<Rightarrow> Inl ValueError)"

text \<open>The second loop of \<^verbatim>\<open>_compute_ipv6addr\<close>.\<close>

fun ipv6_first :: "string list \<Rightarrow> error + (string \<times> string) option" where
  "ipv6_first [] = Inr None"
| "ipv6_first (i # rest) =
     (case py_rsplit1 CHR '':'' i of
        [ipaddr, port] \<Rightarrow>
          if is_valid_ipv6_address ipaddr then Inr (Some (ipaddr, port))
          else ipv6_first rest
      | _ \<Rightarrow> Inl ValueError)"

definition compute_ipv6addr :: "int \<Rightarrow> string list \<Rightarrow> error + (string \<times> string) option" where
  "compute_ipv6addr op addrs =
     (case ipv6_same_port op addrs of
        Inl e \<Rightarrow> Inl e
      | Inr (Some r) \<Rightarrow> Inr (Some r)
      | Inr None \<Rightarrow> ipv6_first addrs)"

text \<open>\<^verbatim>\<open>Candidate.__init__\<close>.\<close>

definition Candidate_init :: "details \<Rightarrow> error + candidate" where
  "Candidate_init d =
     (case fingerprint d of None \<Rightarrow> Inl (MissingField ''fingerprint'') | Some f \<Rightarrow>
     (case nickname d of None \<Rightarrow> Inl (MissingField ''nickname'') | Some nick \<Rightarrow>
     (case last_changed_address_or_port d of
        None \<Rightarrow> Inl (MissingField ''last_changed_address_or_port'') | Some changed \<Rightarrow>
     (case consensus_weight d of None \<Rightarrow> Inl (MissingField ''consensus_weight'') | Some cw \<Rightarrow>
     (case or_addresses d of None \<Rightarrow> Inl (MissingField ''or_addresses'') | Some addrs \<Rightarrow>
     (case dir_address d of None \<Rightarrow> Inl (MissingField ''dir_address'') | Some da \<Rightarrow>
     (let stable = stable_sort_or_addresses addrs in
     (case split_dirport da of Inl e \<Rightarrow> Inl e | Inr (dip, dport) \<Rightarrow>
     (case compute_orport dip stable of
        Inl e \<Rightarrow> Inl e
      | Inr None \<Rightarrow> Inl (NoOrPort f)
      | Inr (Some op) \<Rightarrow>
     (case compute_ipv6addr op stable of Inl e \<Rightarrow> Inl e | Inr v6 \<Rightarrow>
      Inr \<lparr> data_fingerprint = f,
            data_nickname = nick,
            data_contact = contact d,
            data_flags = (case flags d of None \<Rightarrow> [] | Some fl \<Rightarrow> fl),
            data_advertised_bandwidth = (case advertised_bandwidth d of None \<Rightarrow> 0 | Some b \<Rightarrow> b),
            data_consensus_weight = cw,
            data_last_changed_address_or_port = changed,
            data_or_addresses = stable,
            data_or_addresses_raw = addrs,
            data_dir_address = da,
            data_recommended_version = recommended_version d,
            data_measured_bandwidth = None,
            fpr = f,
            running = 0,
            guard = 0,
            v2dir = 0,
            badexit = NoAttribute,
            dirip = dip,
            dirport = dport,
            orport = op,
            ipv6addr = map_option fst v6,
            ipv6orport = map_option snd v6 \<rparr>))))))))))"

definition is_exit :: "candidate \<Rightarrow> bool" where
  "is_exit c = (''Exit'' \<in> set (data_flags c))"

definition is_guard :: "candidate \<Rightarrow> bool" where
  "is_guard c = (''Guard'' \<in> set (data_flags c))"

definition is_running :: "candidate \<Rightarrow> bool" where
  "is_running c = (''Running'' \<in> set (data_flags c))"

subsection \<open>Uptime histories\<close>

text \<open>
  One period of a flag's history (\<^verbatim>\<open>h = history[p]\<close>): the interval in seconds, the
  time stamps as \<^verbatim>\<open>parse_ts\<close> returns them, the values (null is \<open>None\<close>).
  A history is the dictionary from period names to periods, in the order its keys are
  listed.
\<close>

record period =
  h_count :: int
  h_interval :: int
  h_first :: datetime
  h_last :: datetime
  h_values :: "int option list"

type_synonym history = "(string \<times> period) list"

record sample =
  sample_age :: int
  sample_length :: int
  sample_value :: "int option"

text \<open>
  The inner loop of \<^verbatim>\<open>_extract_generic_history\<close> over
  \<^verbatim>\<open>reversed(h['values'])\<close>. The state is \<^verbatim>\<open>this_ts\<close>, \<^verbatim>\<open>newest\<close> and
  the list built so far.
\<close>

fun extract_values ::
  "datetime \<Rightarrow> timedelta \<Rightarrow> int option list \<Rightarrow> datetime \<times> datetime \<times> sample list
     \<Rightarrow> datetime \<times> datetime \<times> sample list" where
  "extract_values now interval [] st = st"
| "extract_values now interval (v # vs) (this_ts, newest, generic_history) =
     extract_values now interval vs
       (if this_ts \<le> newest
        then (let agt1 = now - this_ts;
                  agt2 = interval;
                  agetmp1 = (td_microseconds agt1
                             + (td_seconds agt1 + td_days agt1 * 24 * 3600) * 10 ^ 6) div 10 ^ 6;
                  agetmp2 = (td_microseconds agt2
                             + (td_seconds agt2 + td_days agt2 * 24 * 3600) * 10 ^ 6) div 10 ^ 6
              in (this_ts - interval, this_ts,
                  generic_history
                    @ [\<lparr> sample_age = agetmp1, sample_length = agetmp2, sample_value = v \<rparr>]))
        else (this_ts - interval, newest, generic_history))"

text \<open>The outer loop over the periods; the state is \<^verbatim>\<open>newest\<close> and the list.\<close>

fun extract_periods ::
  "datetime \<Rightarrow> history \<Rightarrow> datetime \<times> sample list \<Rightarrow> datetime \<times> sample list" where
  "extract_periods now [] st = st"
| "extract_periods now ((p, h) # ps) (newest, generic_history) =
     (case extract_values now (timedelta_seconds (h_interval h)) (rev (h_values h))
             (h_last h, newest, generic_history) of
        (this_ts, newest', generic_history') \<Rightarrow>
          extract_periods now ps (newest', generic_history'))"

text \<open>
  \<^verbatim>\<open>_extract_generic_history\<close>, with \<^verbatim>\<open>utcnow()\<close> as the argument \<open>now\<close>.
  The periods are sorted by their interval; Python's sort is stable, as \<open>sort_key\<close> is.
\<close>

definition extract_generic_history :: "datetime \<Rightarrow> history \<Rightarrow> sample list" where
  "extract_generic_history now history =
     snd (extract_periods now (sort_key (\<lambda>ph. h_interval (snd ph)) history) (now, []))"

text \<open>The loop of \<^verbatim>\<open>_avg_generic_history\<close>: the pairs (value * weight, weight).\<close>

fun avg_pairs :: "sample list \<Rightarrow> (rat \<times> rat) list" where
  "avg_pairs [] = []"
| "avg_pairs (i # rest) =
     (if sample_age i > ADDRESS_AND_PORT_STABLE_DAYS * 24 * 3600 then avg_pairs rest
      else (case sample_value i of
              None \<Rightarrow> avg_pairs rest
            | Some v \<Rightarrow>
                (let w = of_int (sample_length i)
                           * power_int AGE_ALPHA (sample_age i div (3600 * 24))
                 in (of_int v * w, w) # avg_pairs rest)))"

definition avg_generic_history :: "sample list \<Rightarrow> rat" where
  "avg_generic_history generic_history =
     (let a = avg_pairs generic_history;
          sv = sum_list (map fst a);
          sw = sum_list (map snd a)
      in if sw = 0 then 0 else sv / sw)"

text \<open>One relay of the uptime document: \<^verbatim>\<open>uptime['flags']\<close> maps a flag to its history.\<close>

record uptime =
  u_fingerprint :: "string option"
  u_flags :: "(string \<times> history) list option"

text \<open>\<^verbatim>\<open>Candidate.add_uptime\<close>.\<close>

definition add_uptime :: "datetime \<Rightarrow> uptime \<Rightarrow> candidate \<Rightarrow> candidate" where
  "add_uptime now up c =
     (case u_flags up of
        None \<Rightarrow> c
      | Some fl \<Rightarrow>
          (case (map_of fl ''Running'', map_of fl ''Guard'', map_of fl ''V2Dir'') of
             (Some r, Some g, Some v) \<Rightarrow>
               c \<lparr> running := avg_generic_history (extract_generic_history now r) / ONIONOO_SCALE_ONE,
                   guard := avg_generic_history (extract_generic_history now g) / ONIONOO_SCALE_ONE,
                   v2dir := avg_generic_history (extract_generic_history now v) / ONIONOO_SCALE_ONE,
                   badexit :=
                     (case map_of fl ''BadExit'' of
                        None \<Rightarrow> NoBadExitHistory
                      | Some b \<Rightarrow>
                          BadExitFraction
                            (avg_generic_history (extract_generic_history now b)
                               / ONIONOO_SCALE_ONE)) \<rparr>
           | _ \<Rightarrow> c))"

text \<open>
  An uptime document that \<^verbatim>\<open>add_uptime\<close> does not return from early: it has flags,
  and among them Running, Guard and V2Dir.
\<close>

definition complete_uptime :: "uptime \<Rightarrow> bool" where
  "complete_uptime up =
     (case u_flags up of
        None \<Rightarrow> False
      | Some fl \<Rightarrow> list_all (\<lambda>f. map_of fl f \<noteq> None) [''Running'', ''Guard'', ''V2Dir''])"

subsection \<open>Eligibility\<close>

text \<open>
  The class attribute \<^verbatim>\<open>CUTOFF_ADDRESS_AND_PORT_STABLE\<close>, from the time \<open>now\<close> at
  which the class is created.
\<close>

definition CUTOFF_ADDRESS_AND_PORT_STABLE :: "datetime \<Rightarrow> datetime" where
  "CUTOFF_ADDRESS_AND_PORT_STABLE now = now - timedelta_days ADDRESS_AND_PORT_STABLE_DAYS"

definition is_candidate :: "datetime \<Rightarrow> candidate \<Rightarrow> error + bool" where
  "is_candidate now c =
     (let must_be_running_now = (PERFORM_IPV4_DIRPORT_CHECKS \<or> PERFORM_IPV6_DIRPORT_CHECKS)
      in if must_be_running_now \<and> \<not> is_running c then Inr False
         else if data_last_changed_address_or_port c > CUTOFF_ADDRESS_AND_PORT_STABLE now
           then Inr False
         else if running c < CUTOFF_RUNNING then Inr False
         else if v2dir c < CUTOFF_V2DIR then Inr False
         else (case badexit c of
                 NoAttribute \<Rightarrow> Inl AttributeError
               | BadExitFraction b \<Rightarrow>
                   if b > PERMITTED_BADEXIT then Inr False
                   else if data_recommended_version c \<noteq> Some True then Inr False
                   else if guard c < CUTOFF_GUARD then Inr False
                   else if data_consensus_weight c < 1 then Inr False
                   else Inr True
               | NoBadExitHistory \<Rightarrow>
                   if data_recommended_version c \<noteq> Some True then Inr False
                   else if guard c < CUTOFF_GUARD then Inr False
                   else if data_consensus_weight c < 1 then Inr False
                   else Inr True))"

subsection \<open>Whitelist and blacklist\<close>

text \<open>
  A line of a list file: the dictionary from keys to values, both strings, in the order
  its keys are listed.
\<close>

type_synonym entry = "(string \<times> string) list"

definition has_key :: "entry \<Rightarrow> string \<Rightarrow> bool" where
  "has_key e k = (map_of e k \<noteq> None)"

text \<open>\<^verbatim>\<open>int(entry[k])\<close>: a missing key and a value that is not a number both raise.\<close>

definition entry_int :: "entry \<Rightarrow> string \<Rightarrow> error + int" where
  "entry_int e k =
     (case map_of e k of
        None \<Rightarrow> Inl KeyError
      | Some v \<Rightarrow> (case py_int v of None \<Rightarrow> Inl ValueError | Some n \<Rightarrow> Inr n))"

definition has_ipv6 :: "candidate \<Rightarrow> bool" where
  "has_ipv6 c = (ipv6addr c \<noteq> None \<and> ipv6orport c \<noteq> None)"

text \<open>\<^verbatim>\<open>self.ipv6addr + ':' + self.ipv6orport\<close>, where both are set.\<close>

definition ipv6_of :: "candidate \<Rightarrow> string option" where
  "ipv6_of c =
     (case (ipv6addr c, ipv6orport c) of
        (Some a, Some p) \<Rightarrow> Some (a @ '':'' @ p)
      | _ \<Rightarrow> None)"

text \<open>
  The loop of \<^verbatim>\<open>is_in_whitelist\<close>. The local variable \<^verbatim>\<open>ipv6\<close> is carried
  along: \<open>None\<close> while no iteration has assigned it.
\<close>

fun whitelist_loop :: "candidate \<Rightarrow> string option \<Rightarrow> entry list \<Rightarrow> error + bool" where
  "whitelist_loop c ipv6 [] = Inr False"
| "whitelist_loop c ipv6 (entry # rest) =
     (case map_of entry ''id'' of
        None \<Rightarrow> Inl KeyError
      | Some eid \<Rightarrow>
     (if eid \<noteq> fpr c then whitelist_loop c ipv6 rest
      else
     (case map_of entry ''ipv4'' of
        None \<Rightarrow> Inl KeyError
      | Some ev4 \<Rightarrow>
     (if ev4 \<noteq> dirip c then whitelist_loop c ipv6 rest
      else
     (case entry_int entry ''dirport'' of
        Inl e \<Rightarrow> Inl e
      | Inr edirport \<Rightarrow>
     (if edirport \<noteq> dirport c then whitelist_loop c ipv6 rest
      else
     (case entry_int entry ''orport'' of
        Inl e \<Rightarrow> Inl e
      | Inr eorport \<Rightarrow>
     (if eorport \<noteq> orport c then whitelist_loop c ipv6 rest
      else if has_key entry ''ipv6'' \<and> has_ipv6 c then
        (if map_of entry ''ipv6'' \<noteq> ipv6_of c then whitelist_loop c (ipv6_of c) rest
         else Inr True)
      else if has_key entry ''ipv6'' \<and> \<not> has_ipv6 c then whitelist_loop c ipv6 rest
      else if \<not> has_key entry ''ipv6'' \<and> has_ipv6 c then
        (case ipv6 of
           None \<Rightarrow> Inl UnboundLocalError
         | Some v \<Rightarrow> whitelist_loop c ipv6 rest)
      else Inr True))))))))"

definition is_in_whitelist :: "candidate \<Rightarrow> entry list \<Rightarrow> error + bool" where
  "is_in_whitelist c relaylist = whitelist_loop c None relaylist"

text \<open>
  One pass of the inner loop of \<^verbatim>\<open>is_in_blacklist\<close>, for one key of the entry:
  \<open>Inr True\<close> is \<^verbatim>\<open>return True\<close>, \<open>Inr False\<close> goes on with the next key.
\<close>

definition blacklist_key :: "candidate \<Rightarrow> entry \<Rightarrow> string \<Rightarrow> error + bool" where
  "blacklist_key c entry key =
     (case map_of entry key of
        None \<Rightarrow> Inl KeyError
      | Some v \<Rightarrow>
     (if key = ''id'' \<and> v = fpr c then Inr True
      else
     (case (if key = ''ipv4'' \<and> v = dirip c then
              (if has_key entry ''dirport'' then
                 (case entry_int entry ''dirport'' of
                    Inl e \<Rightarrow> Inl e
                  | Inr n \<Rightarrow> Inr (n = dirport c))
               else if has_key entry ''orport'' then
                 (case entry_int entry ''orport'' of
                    Inl e \<Rightarrow> Inl e
                  | Inr n \<Rightarrow> Inr (n = orport c))
               else Inr True)
            else Inr False) of
        Inl e \<Rightarrow> Inl e
      | Inr True \<Rightarrow> Inr True
      | Inr False \<Rightarrow>
     (if key = ''ipv6'' \<and> has_ipv6 c then
        (if Some v = ipv6_of c then
           (if has_key entry ''dirport'' then
              (case entry_int entry ''dirport'' of
                 Inl e \<Rightarrow> Inl e
               | Inr n \<Rightarrow> Inr (n = dirport c))
            else Inr True)
         else Inr False)
      else Inr False))))"

fun blacklist_keys :: "candidate \<Rightarrow> entry \<Rightarrow> string list \<Rightarrow> error + bool" where
  "blacklist_keys c entry [] = Inr False"
| "blacklist_keys c entry (key # keys) =
     (case blacklist_key c entry key of
        Inl e \<Rightarrow> Inl e
      | Inr True \<Rightarrow> Inr True
      | Inr False \<Rightarrow> blacklist_keys c entry keys)"

fun is_in_blacklist :: "candidate \<Rightarrow> entry list \<Rightarrow> error + bool" where
  "is_in_blacklist c [] = Inr False"
| "is_in_blacklist c (entry # rest) =
     (case blacklist_keys c entry (map fst entry) of
        Inl e \<Rightarrow> Inl e
      | Inr True \<Rightarrow> Inr True
      | Inr False \<Rightarrow> is_in_blacklist c rest)"

subsection \<open>Bandwidth\<close>

text \<open>
  \<^verbatim>\<open>cw_to_bw_factor\<close>: both numbers are integers of the details document, and
  Python 2 divides integers with floor.
\<close>

definition cw_to_bw_factor :: "candidate \<Rightarrow> error + int" where
  "cw_to_bw_factor c =
     (if data_consensus_weight c = 0 then Inl ZeroDivisionError
      else Inr (data_advertised_bandwidth c div data_consensus_weight c))"

definition measured_bandwidth :: "candidate \<Rightarrow> rat \<Rightarrow> rat" where
  "measured_bandwidth c median_cw_to_bw_factor =
     (let cw_to_bw = (if is_exit c then median_cw_to_bw_factor * EXIT_BANDWIDTH_FRACTION
                      else median_cw_to_bw_factor);
          measured = of_int (data_consensus_weight c) * cw_to_bw
      in if data_advertised_bandwidth c \<noteq> 0
         then min measured (of_int (data_advertised_bandwidth c))
         else measured)"

definition set_measured_bandwidth :: "candidate \<Rightarrow> rat \<Rightarrow> candidate" where
  "set_measured_bandwidth c median_cw_to_bw_factor =
     c \<lparr> data_measured_bandwidth := Some (measured_bandwidth c median_cw_to_bw_factor) \<rparr>"

subsection \<open>The candidate list\<close>

text \<open>
  A \<^verbatim>\<open>CandidateList\<close>: the dictionary from fingerprints to candidates that the object
  is, and its attribute \<^verbatim>\<open>fallbacks\<close>, a list of candidates.
\<close>

record candidate_list =
  relays :: "(string \<times> candidate) list"
  fallbacks :: "candidate list"

text \<open>
  What a program can index the dictionary with: a string or a \<^verbatim>\<open>Candidate\<close> object.
  Every key stored is a fingerprint string (\<^verbatim>\<open>_add_relay\<close>), and an object never
  equals a string, so looking an object up raises \<^verbatim>\<open>KeyError\<close>.
\<close>

datatype dict_key = KeyStr string | KeyObj candidate

definition getitem :: "candidate_list \<Rightarrow> dict_key \<Rightarrow> error + candidate" where
  "getitem self k =
     (case k of
        KeyStr s \<Rightarrow> (case map_of (relays self) s of None \<Rightarrow> Inl KeyError | Some c \<Rightarrow> Inr c)
      | KeyObj x \<Rightarrow> Inl KeyError)"

text \<open>\<^verbatim>\<open>CandidateList._add_relay\<close>.\<close>

definition add_relay :: "details \<Rightarrow> candidate_list \<Rightarrow> error + candidate_list" where
  "add_relay d self =
     (if dir_address d = None then Inr self
      else (case Candidate_init d of
              Inl e \<Rightarrow> Inl e
            | Inr c \<Rightarrow> Inr (self \<lparr> relays := AList.update (fpr c) c (relays self) \<rparr>)))"

text \<open>
  The loop of \<^verbatim>\<open>_add_details\<close>, \<^verbatim>\<open>for r in d['relays']: self._add_relay(r)\<close>,
  over the relays of the fetched document.
\<close>

fun add_details :: "details list \<Rightarrow> candidate_list \<Rightarrow> error + candidate_list" where
  "add_details [] self = Inr self"
| "add_details (r # rs) self =
     (case add_relay r self of
        Inl e \<Rightarrow> Inl e
      | Inr self' \<Rightarrow> add_details rs self')"

text \<open>\<^verbatim>\<open>CandidateList._add_uptime\<close>.\<close>

definition CandidateList_add_uptime ::
  "datetime \<Rightarrow> uptime \<Rightarrow> candidate_list \<Rightarrow> error + candidate_list" where
  "CandidateList_add_uptime now up self =
     (case u_fingerprint up of
        None \<Rightarrow> Inl (MissingField ''fingerprint'')
      | Some f \<Rightarrow>
          (case map_of (relays self) f of
             None \<Rightarrow> Inr self
           | Some c \<Rightarrow>
               Inr (self \<lparr> relays := AList.update f (add_uptime now up c) (relays self) \<rparr>)))"

text \<open>
  The keys a sort computes, in the order of the list: the first call that raises
  ends the sort.
\<close>

fun sort_keys :: "('a \<Rightarrow> error + 'k) \<Rightarrow> 'a list \<Rightarrow> error + 'k list" where
  "sort_keys key [] = Inr []"
| "sort_keys key (x # xs) =
     (case key x of
        Inl e \<Rightarrow> Inl e
      | Inr k \<Rightarrow> (case sort_keys key xs of Inl e \<Rightarrow> Inl e | Inr ks \<Rightarrow> Inr (k # ks)))"

text \<open>
  \<^verbatim>\<open>self.fallbacks.sort(key=lambda x: self[x].cw_to_bw_factor())\<close>: the elements
  \<open>x\<close> of the list are \<^verbatim>\<open>Candidate\<close> objects.
\<close>

definition sort_fallbacks_by_cw_to_bw_factor :: "candidate_list \<Rightarrow> error + candidate_list" where
  "sort_fallbacks_by_cw_to_bw_factor self =
     (case sort_keys (\<lambda>x. (case getitem self (KeyObj x) of
                              Inl e \<Rightarrow> Inl e
                            | Inr c \<Rightarrow> cw_to_bw_factor c))
             (fallbacks self) of
        Inl e \<Rightarrow> Inl e
      | Inr ks \<Rightarrow>
          Inr (self \<lparr> fallbacks := map snd (sort_key fst (zip ks (fallbacks self))) \<rparr>))"

text \<open>
  The \<^verbatim>\<open>while\<close> loop of \<^verbatim>\<open>fallback_median\<close>, entered with a position inside the
  list: it moves on while the relay has no advertised bandwidth, and gives up at the end.
\<close>

function median_advance :: "candidate list \<Rightarrow> nat \<Rightarrow> candidate option" where
  "median_advance fbs median_position =
     (if median_position < length fbs then
        (if data_advertised_bandwidth (fbs ! median_position) = 0
         then median_advance fbs (Suc median_position)
         else Some (fbs ! median_position))
      else None)"
  by pat_completeness auto
termination
  by (relation "measure (\<lambda>(fbs, pos). length fbs - pos)") auto

declare median_advance.simps [simp del]

definition fallback_median :: "candidate_list \<Rightarrow> bool \<Rightarrow> candidate option" where
  "fallback_median self require_advertised_bandwidth =
     (if length (fallbacks self) > 0 then
        (let median_position = (length (fallbacks self) - 1) div 2
         in if \<not> require_advertised_bandwidth then Some (fallbacks self ! median_position)
            else median_advance (fallbacks self) median_position)
      else None)"

text \<open>
  \<^verbatim>\<open>calculate_measured_bandwidth\<close>: \<^verbatim>\<open>fallback_median\<close> may return
  \<^verbatim>\<open>None\<close>, whose \<^verbatim>\<open>cw_to_bw_factor\<close> does not exist.
\<close>

definition calculate_measured_bandwidth :: "candidate_list \<Rightarrow> error + candidate_list" where
  "calculate_measured_bandwidth self =
     (case sort_fallbacks_by_cw_to_bw_factor self of
        Inl e \<Rightarrow> Inl e
      | Inr self1 \<Rightarrow>
          (case fallback_median self1 True of
             None \<Rightarrow> Inl AttributeError
           | Some median_fallback \<Rightarrow>
               (case cw_to_bw_factor median_fallback of
                  Inl e \<Rightarrow> Inl e
                | Inr median_cw_to_bw_factor \<Rightarrow>
                    Inr (self1 \<lparr> fallbacks :=
                           map (\<lambda>f. set_measured_bandwidth f (of_int median_cw_to_bw_factor))
                             (fallbacks self1) \<rparr>))))"

subsection \<open>The report\<close>

text \<open>\<^verbatim>\<open>'%d' % n\<close>.\<close>

fun str_nat :: "nat \<Rightarrow> string" where
  "str_nat n =
     (if n < 10 then [''0123456789'' ! n]
      else str_nat (n div 10) @ [''0123456789'' ! (n mod 10)])"

definition fmt_d :: "int \<Rightarrow> string" where
  "fmt_d i = (if i < 0 then ''-'' @ str_nat (nat (- i)) else str_nat (nat i))"

definition fallback_min :: "candidate_list \<Rightarrow> candidate option" where
  "fallback_min self = (if length (fallbacks self) > 0 then Some (last (fallbacks self)) else None)"

definition fallback_max :: "candidate_list \<Rightarrow> candidate option" where
  "fallback_max self = (if length (fallbacks self) > 0 then Some (hd (fallbacks self)) else None)"

text \<open>
  \<^verbatim>\<open>fb._data['measured_bandwidth']\<close> for what \<^verbatim>\<open>fallback_min\<close> or
  \<^verbatim>\<open>fallback_max\<close> returned: \<^verbatim>\<open>None\<close> has no \<^verbatim>\<open>_data\<close>, and the key
  exists only once \<^verbatim>\<open>set_measured_bandwidth\<close> has run.
\<close>

definition measured_bandwidth_of :: "candidate option \<Rightarrow> error + rat" where
  "measured_bandwidth_of fb =
     (case fb of
        None \<Rightarrow> Inl AttributeError
      | Some c \<Rightarrow> (case data_measured_bandwidth c of None \<Rightarrow> Inl KeyError | Some bw \<Rightarrow> Inr bw))"

text \<open>
  \<^verbatim>\<open>summarise_fallbacks\<close>. The text of a float under \<^verbatim>\<open>%.1f\<close> and \<^verbatim>\<open>%f\<close>
  is the argument \<open>fmt\<close>, given the directive and the number.
\<close>

definition summarise_fallbacks ::
  "(string \<Rightarrow> rat \<Rightarrow> string) \<Rightarrow> candidate_list \<Rightarrow> int \<Rightarrow> int \<Rightarrow> int \<Rightarrow> int \<Rightarrow> error + string"
  where
  "summarise_fallbacks fmt self eligible_count guard_count target_count max_count =
     (let s1 = (if PERFORM_IPV4_DIRPORT_CHECKS \<or> PERFORM_IPV6_DIRPORT_CHECKS then
                  ''/* Checked ''
                  @ (if PERFORM_IPV4_DIRPORT_CHECKS then ''IPv4'' else [])
                  @ (if PERFORM_IPV4_DIRPORT_CHECKS \<and> PERFORM_IPV6_DIRPORT_CHECKS
                     then '' and '' else [])
                  @ (if PERFORM_IPV6_DIRPORT_CHECKS then ''IPv6'' else [])
                  @ '' DirPorts served a consensus within ''
                  @ fmt ''%.1f'' CONSENSUS_DOWNLOAD_SPEED_MAX @ ''s. */''
                else ''/* Did not check IPv4 or IPv6 DirPort consensus downloads. */'');
          fallback_count = int (length (fallbacks self));
          fallback_proportion =
            (case FALLBACK_PROPORTION_OF_GUARDS of
               None \<Rightarrow> []
             | Some prop \<Rightarrow>
                 '', Target '' @ fmt_d target_count @ '' ('' @ fmt_d guard_count @ '' * ''
                 @ fmt ''%f'' prop @ '')'');
          s2 = s1 @ [CHR 0x0A] @ ''/*'' @ [CHR 0x0A]
               @ ''Final Count: '' @ fmt_d fallback_count
               @ '' (Eligible '' @ fmt_d eligible_count @ fallback_proportion
               @ (case MAX_FALLBACK_COUNT of
                    None \<Rightarrow> []
                  | Some m \<Rightarrow> '', Clamped to '' @ fmt_d m)
               @ '')'' @ [CHR 0x0A]
               @ (if eligible_count \<noteq> fallback_count then
                    ''Excluded:     '' @ fmt_d (eligible_count - fallback_count)
                    @ '' (Eligible Count Exceeded Target Count)'' @ [CHR 0x0A]
                  else [])
      in (case measured_bandwidth_of (fallback_min self) of
            Inl e \<Rightarrow> Inl e
          | Inr min_bw \<Rightarrow>
         (case measured_bandwidth_of (fallback_max self) of
            Inl e \<Rightarrow> Inl e
          | Inr max_bw \<Rightarrow>
         (let s3 = s2 @ ''Bandwidth Range: '' @ fmt ''%.1f'' (min_bw / (1024 * 1024))
                   @ '' - '' @ fmt ''%.1f'' (max_bw / (1024 * 1024)) @ '' MB/s''
                   @ [CHR 0x0A] @ ''*/''
          in if fallback_count < MIN_FALLBACK_COUNT then
               Inr (s3 @ [CHR 0x0A]
                    @ ''#error Fallback Count '' @ fmt_d fallback_count @ '' is too low. ''
                    @ ''Must be at least '' @ fmt_d MIN_FALLBACK_COUNT @ '' for diversity. ''
                    @ ''Try adding entries to the whitelist, ''
                    @ ''or setting INCLUDE_UNLISTED_ENTRIES = True.'')
             else Inr s3))))"

text \<open>
  What \<^verbatim>\<open>list_fallbacks\<close> prints: a text, the description of a fetch source, or
  the \<^verbatim>\<open>fallbackdir_line\<close> of a candidate for a result of its download check.
\<close>

datatype printed =
    Text string
  | FetchSource string
  | FallbackdirLine candidate bool

text \<open>
  The last loop of \<^verbatim>\<open>list_fallbacks\<close>. The result of
  \<^verbatim>\<open>x.fallback_consensus_dl_check()\<close>, a download over the network, is the argument
  \<open>dl_check\<close>.
\<close>

fun print_fallbacks :: "(candidate \<Rightarrow> bool) \<Rightarrow> int \<Rightarrow> int \<Rightarrow> candidate list \<Rightarrow> printed list" where
  "print_fallbacks dl_check max_count active_count [] = []"
| "print_fallbacks dl_check max_count active_count (x # xs) =
     (let dl_speed_ok = dl_check x
      in FallbackdirLine x dl_speed_ok
         # (if dl_speed_ok then
              (if active_count + 1 \<ge> max_count then []
               else print_fallbacks dl_check max_count (active_count + 1) xs)
            else print_fallbacks dl_check max_count active_count xs))"

text \<open>
  The last statements of \<^verbatim>\<open>list_fallbacks\<close>, from the summary on, as
  \<open>list_fallbacks\<close> below runs them after all the others: the summary or the notice
  that there is no fallback, the fetch sources \<open>sources\<close>, one line per fallback that
  is checked. \<open>Inl\<close> is an exception raised before anything of it is printed.
\<close>

definition list_fallbacks_report ::
  "(string \<Rightarrow> rat \<Rightarrow> string) \<Rightarrow> (candidate \<Rightarrow> bool) \<Rightarrow> string list \<Rightarrow> candidate_list
     \<Rightarrow> int \<Rightarrow> int \<Rightarrow> int \<Rightarrow> int \<Rightarrow> error + printed list" where
  "list_fallbacks_report fmt dl_check sources candidates
       eligible_count guard_count target_count max_count =
     (case (if length (fallbacks candidates) > 0
            then summarise_fallbacks fmt candidates eligible_count guard_count
                   target_count max_count
            else Inr ''/* No Fallbacks met criteria */'') of
        Inl e \<Rightarrow> Inl e
      | Inr summary \<Rightarrow>
          Inr (Text summary # map FetchSource sources
               @ print_fallbacks dl_check max_count 0 (fallbacks candidates)))"

subsection \<open>The run\<close>

text \<open>
  The loop of \<^verbatim>\<open>_add_uptimes\<close> over the relays of the fetched uptime document.
\<close>

fun add_uptimes :: "datetime \<Rightarrow> uptime list \<Rightarrow> candidate_list \<Rightarrow> error + candidate_list" where
  "add_uptimes now [] self = Inr self"
| "add_uptimes now (r # rs) self =
     (case CandidateList_add_uptime now r self of
        Inl e \<Rightarrow> Inl e
      | Inr self' \<Rightarrow> add_uptimes now rs self')"

text \<open>
  \<^verbatim>\<open>add_relays\<close>. The two documents are what \<^verbatim>\<open>fetch\<close> returned: the value
  of the key \<^verbatim>\<open>relays\<close> of each, \<open>None\<close> when the document has no such key.
\<close>

definition add_relays ::
  "datetime \<Rightarrow> details list option \<Rightarrow> uptime list option \<Rightarrow> candidate_list
     \<Rightarrow> error + candidate_list" where
  "add_relays now details_doc uptime_doc self =
     (case details_doc of
        None \<Rightarrow> Inl NoRelays
      | Some rs \<Rightarrow>
          (case add_details rs self of
             Inl e \<Rightarrow> Inl e
           | Inr self1 \<Rightarrow>
               (case uptime_doc of
                  None \<Rightarrow> Inl NoRelays
                | Some us \<Rightarrow> add_uptimes now us self1)))"

definition count_guards :: "candidate_list \<Rightarrow> int" where
  "count_guards self = int (length (filter is_guard (map snd (relays self))))"

text \<open>
  The filter of \<^verbatim>\<open>compute_fallbacks\<close> over \<^verbatim>\<open>self.keys()\<close>, in the order the
  dictionary lists its keys: a call of \<^verbatim>\<open>is_candidate\<close> that raises ends it.
\<close>

fun filter_candidates :: "datetime \<Rightarrow> candidate list \<Rightarrow> error + candidate list" where
  "filter_candidates now [] = Inr []"
| "filter_candidates now (c # cs) =
     (case is_candidate now c of
        Inl e \<Rightarrow> Inl e
      | Inr keep \<Rightarrow>
          (case filter_candidates now cs of
             Inl e \<Rightarrow> Inl e
           | Inr rest \<Rightarrow> Inr (if keep then c # rest else rest)))"

definition compute_fallbacks :: "datetime \<Rightarrow> candidate_list \<Rightarrow> error + candidate_list" where
  "compute_fallbacks now self =
     (case filter_candidates now (map snd (relays self)) of
        Inl e \<Rightarrow> Inl e
      | Inr fbs \<Rightarrow> Inr (self \<lparr> fallbacks := fbs \<rparr>))"

text \<open>
  The loop of \<^verbatim>\<open>apply_filter_lists\<close>: the fallbacks kept and the number excluded.
  The two lists are what \<^verbatim>\<open>load_relaylist\<close> read from the list files.
\<close>

fun filter_lists ::
  "entry list \<Rightarrow> entry list \<Rightarrow> candidate list \<Rightarrow> error + (candidate list \<times> int)" where
  "filter_lists whitelist blacklist [] = Inr ([], 0)"
| "filter_lists whitelist blacklist (f # fs) =
     (case is_in_whitelist f whitelist of
        Inl e \<Rightarrow> Inl e
      | Inr in_whitelist \<Rightarrow>
     (case is_in_blacklist f blacklist of
        Inl e \<Rightarrow> Inl e
      | Inr in_blacklist \<Rightarrow>
     (case filter_lists whitelist blacklist fs of
        Inl e \<Rightarrow> Inl e
      | Inr (kept, excluded_count) \<Rightarrow>
          if in_whitelist \<and> in_blacklist then
            (if BLACKLIST_EXCLUDES_WHITELIST_ENTRIES then Inr (kept, excluded_count + 1)
             else Inr (f # kept, excluded_count))
          else if in_whitelist then Inr (f # kept, excluded_count)
          else if in_blacklist then Inr (kept, excluded_count + 1)
          else if INCLUDE_UNLISTED_ENTRIES then Inr (f # kept, excluded_count)
          else Inr (kept, excluded_count + 1))))"

definition apply_filter_lists ::
  "entry list \<Rightarrow> entry list \<Rightarrow> candidate_list \<Rightarrow> error + (candidate_list \<times> int)" where
  "apply_filter_lists whitelist blacklist self =
     (case filter_lists whitelist blacklist (fallbacks self) of
        Inl e \<Rightarrow> Inl e
      | Inr (kept, excluded_count) \<Rightarrow> Inr (self \<lparr> fallbacks := kept \<rparr>, excluded_count))"

definition summarise_filters :: "int \<Rightarrow> int \<Rightarrow> string" where
  "summarise_filters initial_count excluded_count =
     ''/* Whitelist & blacklist excluded '' @ fmt_d excluded_count @ '' of ''
     @ fmt_d initial_count @ '' candidates. */''"

text \<open>
  The loop of \<^verbatim>\<open>remove_low_bandwidth_relays\<close>; the key
  \<^verbatim>\<open>measured_bandwidth\<close> exists only once \<^verbatim>\<open>set_measured_bandwidth\<close> has run.
\<close>

fun above_min_bw :: "rat \<Rightarrow> candidate list \<Rightarrow> error + candidate list" where
  "above_min_bw min_bw [] = Inr []"
| "above_min_bw min_bw (f # fs) =
     (case data_measured_bandwidth f of
        None \<Rightarrow> Inl KeyError
      | Some bw \<Rightarrow>
          (case above_min_bw min_bw fs of
             Inl e \<Rightarrow> Inl e
           | Inr rest \<Rightarrow> Inr (if bw \<ge> min_bw then f # rest else rest)))"

definition remove_low_bandwidth_relays :: "candidate_list \<Rightarrow> error + candidate_list" where
  "remove_low_bandwidth_relays self =
     (case MIN_BANDWIDTH of
        None \<Rightarrow> Inr self
      | Some min_bw \<Rightarrow>
          (case above_min_bw min_bw (fallbacks self) of
             Inl e \<Rightarrow> Inl e
           | Inr fbs \<Rightarrow> Inr (self \<lparr> fallbacks := fbs \<rparr>)))"

text \<open>
  \<^verbatim>\<open>self.fallbacks.sort(key=lambda x: self[x].self._data['measured_bandwidth'],
  reverse=True)\<close>: the key looks the object up as the other sort does, and a candidate
  has no attribute \<^verbatim>\<open>self\<close>. A reversed sort keeps equal elements in their order.
\<close>

definition sort_fallbacks_by_measured_bandwidth :: "candidate_list \<Rightarrow> error + candidate_list"
  where
  "sort_fallbacks_by_measured_bandwidth self =
     (case sort_keys (\<lambda>x. (case getitem self (KeyObj x) of
                              Inl e \<Rightarrow> Inl e
                            | Inr c \<Rightarrow> (Inl AttributeError :: error + rat)))
             (fallbacks self) of
        Inl e \<Rightarrow> Inl e
      | Inr ks \<Rightarrow>
          Inr (self \<lparr> fallbacks :=
                 map snd (rev (sort_key fst (rev (zip ks (fallbacks self))))) \<rparr>))"

text \<open>
  \<^verbatim>\<open>list_fallbacks\<close>, the whole run, given what lies outside the script: the two
  fetched documents, the two parsed list files, the time, the float format and the
  results of the download checks. The result is what the run has printed, and the
  exception that ended it (\<open>None\<close> when it returned).
\<close>

definition list_fallbacks ::
  "(string \<Rightarrow> rat \<Rightarrow> string) \<Rightarrow> (candidate \<Rightarrow> bool) \<Rightarrow> datetime
     \<Rightarrow> details list option \<Rightarrow> uptime list option \<Rightarrow> entry list \<Rightarrow> entry list
     \<Rightarrow> printed list \<times> error option" where
  "list_fallbacks fmt dl_check now details_doc uptime_doc whitelist blacklist =
     (case add_relays now details_doc uptime_doc \<lparr> relays = [], fallbacks = [] \<rparr> of
        Inl e \<Rightarrow> ([], Some e)
      | Inr candidates \<Rightarrow>
     (let guard_count = count_guards candidates;
          target_count = (case FALLBACK_PROPORTION_OF_GUARDS of
                            None \<Rightarrow> guard_count
                          | Some proportion \<Rightarrow> \<lfloor>of_int guard_count * proportion\<rfloor>);
          max_count = (case MAX_FALLBACK_COUNT of
                         None \<Rightarrow> target_count
                       | Some m \<Rightarrow> min target_count m)
      in
     (case compute_fallbacks now candidates of
        Inl e \<Rightarrow> ([], Some e)
      | Inr candidates1 \<Rightarrow>
     (let initial_count = int (length (fallbacks candidates1)) in
     (case apply_filter_lists whitelist blacklist candidates1 of
        Inl e \<Rightarrow> ([], Some e)
      | Inr (candidates2, excluded_count) \<Rightarrow>
     (let printed1 = [Text (summarise_filters initial_count excluded_count)];
          eligible_count = int (length (fallbacks candidates2))
      in
     (case calculate_measured_bandwidth candidates2 of
        Inl e \<Rightarrow> (printed1, Some e)
      | Inr candidates3 \<Rightarrow>
     (case remove_low_bandwidth_relays candidates3 of
        Inl e \<Rightarrow> (printed1, Some e)
      | Inr candidates4 \<Rightarrow>
     (case sort_fallbacks_by_measured_bandwidth candidates4 of
        Inl e \<Rightarrow> (printed1, Some e)
      | Inr candidates5 \<Rightarrow>
     (case list_fallbacks_report fmt dl_check [''details'', ''uptime''] candidates5
             eligible_count guard_count target_count max_count of
        Inl e \<Rightarrow> (printed1, Some e)
      | Inr printed2 \<Rightarrow> (printed1 @ printed2, None)))))))))))"

subsection \<open>Example data and predicates of the statements\<close>

text \<open>
  A relay of a details document, with two IPv6 addresses of which the second in string
  order uses the port of the IPv4 address, and the candidate the constructor builds from it.
\<close>

definition example_details :: details where
  "example_details =
     \<lparr> fingerprint = Some ''AAAA'',
       nickname = Some ''relay'',
       last_changed_address_or_port = Some 0,
       consensus_weight = Some 1000,
       or_addresses = Some [''1.2.3.4:9001'', ''[::2]:9001'', ''[::1]:443''],
       dir_address = Some ''1.2.3.4:80'',
       contact = None,
       flags = Some [''Running'', ''Exit''],
       advertised_bandwidth = Some 40000,
       recommended_version = Some True \<rparr>"

definition example_candidate :: candidate where
  "example_candidate =
     \<lparr> data_fingerprint = ''AAAA'',
       data_nickname = ''relay'',
       data_contact = None,
       data_flags = [''Running'', ''Exit''],
       data_advertised_bandwidth = 40000,
       data_consensus_weight = 1000,
       data_last_changed_address_or_port = 0,
       data_or_addresses = [''1.2.3.4:9001'', ''[::1]:443'', ''[::2]:9001''],
       data_or_addresses_raw = [''1.2.3.4:9001'', ''[::2]:9001'', ''[::1]:443''],
       data_dir_address = ''1.2.3.4:80'',
       data_recommended_version = Some True,
       data_measured_bandwidth = None,
       fpr = ''AAAA'',
       running = 0,
       guard = 0,
       v2dir = 0,
       badexit = NoAttribute,
       dirip = ''1.2.3.4'',
       dirport = 80,
       orport = 9001,
       ipv6addr = Some ''[::1]'',
       ipv6orport = Some ''443'' \<rparr>"

text \<open>An uptime document of the same relay that has no Guard history.\<close>

definition example_uptime_no_guard :: uptime where
  "example_uptime_no_guard =
     \<lparr> u_fingerprint = Some ''AAAA'',
       u_flags = Some [(''Running'', []), (''V2Dir'', [])] \<rparr>"

text \<open>
  A record that \<^verbatim>\<open>_add_relay\<close> handles without raising: it has no directory address
  and is skipped, or the constructor succeeds on it.
\<close>

definition ingestible :: "details \<Rightarrow> bool" where
  "ingestible d = (dir_address d = None \<or> \<not> isl (Candidate_init d))"

text \<open>
  The end of the summary when there are too few fallbacks: a line break and the
  \<^verbatim>\<open>#error\<close> directive for the C compiler.
\<close>

definition error_directive :: "int \<Rightarrow> string" where
  "error_directive fallback_count =
     [CHR 0x0A] @ ''#error Fallback Count '' @ fmt_d fallback_count @ '' is too low. ''
     @ ''Must be at least '' @ fmt_d MIN_FALLBACK_COUNT @ '' for diversity. ''
     @ ''Try adding entries to the whitelist, ''
     @ ''or setting INCLUDE_UNLISTED_ENTRIES = True.''"








text \<open>
  A history of two periods at the time 1000 s: four values an interval of 50 s apart, the
  last at 800 s, and two values an interval of 100 s apart, the last at 800 s.
\<close>

definition example_fine :: period where
  "example_fine =
     \<lparr> h_count = 4, h_interval = 50, h_first = 650000000, h_last = 800000000,
       h_values = [Some 1, Some 2, Some 3, Some 4] \<rparr>"

definition example_coarse :: period where
  "example_coarse =
     \<lparr> h_count = 2, h_interval = 100, h_first = 700000000, h_last = 800000000,
       h_values = [Some 5, Some 6] \<rparr>"


text \<open>
  An entry of the whitelist that agrees with a relay: fingerprint, IPv4 address, dirport
  and orport are the relay's, and the entry has an IPv6 value exactly when the relay has
  one, which is then the relay's.
\<close>

definition whitelist_match :: "candidate \<Rightarrow> entry \<Rightarrow> bool" where
  "whitelist_match c e =
     (map_of e ''id'' = Some (fpr c)
      \<and> map_of e ''ipv4'' = Some (dirip c)
      \<and> entry_int e ''dirport'' = Inr (dirport c)
      \<and> entry_int e ''orport'' = Inr (orport c)
      \<and> has_key e ''ipv6'' = has_ipv6 c
      \<and> (if has_ipv6 c then map_of e ''ipv6'' = ipv6_of c else True))"

section \<open>Properties\<close>

subsection \<open>String operations\<close>


subsection \<open>The constructor on the example\<close>

lemma Candidate_init_example: "Candidate_init example_details = Inr example_candidate"
  by code_simp

subsection \<open>The bandwidth estimate\<close>

text \<open>
  Claim C9. For a relay with nonzero advertised bandwidth the estimate is the minimum of
  consensus weight times median factor (times the exit fraction when the relay has the
  Exit flag) and the advertised bandwidth, so it never exceeds the advertised bandwidth;
  for a relay with zero advertised bandwidth it is that product unchanged.
\<close>

theorem measured_bandwidth_min:
  "(data_advertised_bandwidth c \<noteq> 0 \<longrightarrow>
      measured_bandwidth c m =
        min (of_int (data_consensus_weight c) * m
               * (if is_exit c then EXIT_BANDWIDTH_FRACTION else 1))
            (of_int (data_advertised_bandwidth c))
      \<and> measured_bandwidth c m \<le> of_int (data_advertised_bandwidth c))
   \<and> (data_advertised_bandwidth c = 0 \<longrightarrow>
        measured_bandwidth c m =
          of_int (data_consensus_weight c) * m
            * (if is_exit c then EXIT_BANDWIDTH_FRACTION else 1))"
  by (simp add: measured_bandwidth_def Let_def mult.assoc)

text \<open>
  The example of the specification: consensus weight 1000, median factor 50 and advertised
  bandwidth 40000 give 40000; without advertised bandwidth the estimate is 50000.
\<close>

theorem measured_bandwidth_min_witness:
  "data_advertised_bandwidth example_candidate \<noteq> 0
   \<and> measured_bandwidth example_candidate 50 = min 50000 40000
   \<and> measured_bandwidth example_candidate 50 \<le> 40000
   \<and> data_advertised_bandwidth (example_candidate \<lparr> data_advertised_bandwidth := 0 \<rparr>) = 0
   \<and> measured_bandwidth (example_candidate \<lparr> data_advertised_bandwidth := 0 \<rparr>) 50 = 50000"
  using measured_bandwidth_min [of example_candidate 50]
    measured_bandwidth_min [of "example_candidate \<lparr> data_advertised_bandwidth := 0 \<rparr>" 50]
  by (simp add: example_candidate_def is_exit_def EXIT_BANDWIDTH_FRACTION_def)

subsection \<open>Uptime and eligibility\<close>

lemma add_uptime_incomplete:
  assumes "\<not> complete_uptime up"
  shows "add_uptime t up c = c"
proof (cases "u_flags up")
  case None
  then show ?thesis by (simp add: add_uptime_def)
next
  case (Some fl)
  with assms have missing:
    "map_of fl ''Running'' = None \<or> map_of fl ''Guard'' = None \<or> map_of fl ''V2Dir'' = None"
    by (simp add: complete_uptime_def)
  show ?thesis
  proof (cases "map_of fl ''Running''")
    case None
    with Some show ?thesis by (simp add: add_uptime_def)
  next
    case r: (Some r)
    show ?thesis
    proof (cases "map_of fl ''Guard''")
      case None
      with Some r show ?thesis by (simp add: add_uptime_def)
    next
      case g: (Some g)
      with missing r have "map_of fl ''V2Dir'' = None" by simp
      with Some r g show ?thesis by (simp add: add_uptime_def)
    qed
  qed
qed

lemma add_uptimes_incomplete:
  "list_all (\<lambda>up. \<not> complete_uptime up) ups \<Longrightarrow> foldl (\<lambda>c up. add_uptime t up c) c ups = c"
  by (induction ups arbitrary: c) (simp_all add: add_uptime_incomplete)

lemma Candidate_init_fractions:
  assumes "Candidate_init d = Inr c"
  shows "running c = 0 \<and> guard c = 0 \<and> v2dir c = 0"
  using assms
  by (auto simp: Candidate_init_def Let_def split: option.splits sum.splits prod.splits)

lemma CUTOFF_RUNNING_pos: "0 < CUTOFF_RUNNING"
  by (simp add: CUTOFF_RUNNING_def)

lemma is_candidate_not_running: "running c < CUTOFF_RUNNING \<Longrightarrow> is_candidate now c = Inr False"
  by (simp add: is_candidate_def Let_def)

text \<open>
  Claim C10. The constructor sets the running, guard and v2dir fractions to 0. An uptime
  document without flags, or without one of the Running, Guard and V2Dir histories, leaves
  the candidate as it is. So a relay to which only such documents were added still has all
  three fractions at 0, and it is not a candidate: the running cutoff is positive.
\<close>

theorem no_uptime_not_candidate:
  assumes "Candidate_init d = Inr c0"
    and "list_all (\<lambda>up. \<not> complete_uptime up) ups"
    and "c = foldl (\<lambda>c up. add_uptime t up c) c0 ups"
  shows "running c0 = 0 \<and> guard c0 = 0 \<and> v2dir c0 = 0
         \<and> running c = 0 \<and> guard c = 0 \<and> v2dir c = 0
         \<and> is_candidate now c = Inr False"
proof -
  have c: "c = c0"
    using assms(2,3) by (simp add: add_uptimes_incomplete)
  have zero: "running c0 = 0 \<and> guard c0 = 0 \<and> v2dir c0 = 0"
    using assms(1) by (rule Candidate_init_fractions)
  then have "running c < CUTOFF_RUNNING"
    using c CUTOFF_RUNNING_pos by simp
  then have "is_candidate now c = Inr False"
    by (rule is_candidate_not_running)
  with c zero show ?thesis by simp
qed

theorem no_uptime_not_candidate_witness:
  "Candidate_init example_details = Inr example_candidate
   \<and> list_all (\<lambda>up. \<not> complete_uptime up) [example_uptime_no_guard]
   \<and> running (add_uptime 0 example_uptime_no_guard example_candidate) = 0
   \<and> is_candidate 0 (add_uptime 0 example_uptime_no_guard example_candidate) = Inr False"
proof -
  have a: "Candidate_init example_details = Inr example_candidate"
    by (rule Candidate_init_example)
  have b: "list_all (\<lambda>up. \<not> complete_uptime up) [example_uptime_no_guard]"
    by (simp add: complete_uptime_def example_uptime_no_guard_def)
  have c: "add_uptime 0 example_uptime_no_guard example_candidate
           = foldl (\<lambda>c up. add_uptime 0 up c) example_candidate [example_uptime_no_guard]"
    by simp
  show ?thesis
    using no_uptime_not_candidate [OF a b c, of 0] a b by simp
qed

subsection \<open>The median factor\<close>

lemma sort_keys_KeyError:
  "xs \<noteq> [] \<Longrightarrow> sort_keys (\<lambda>x. (case getitem self (KeyObj x) of Inl e \<Rightarrow> Inl e | Inr c \<Rightarrow> f c)) xs = Inl KeyError"
  by (cases xs) (simp_all add: getitem_def)

lemma sort_fallbacks_KeyError:
  "fallbacks self \<noteq> [] \<Longrightarrow> sort_fallbacks_by_cw_to_bw_factor self = Inl KeyError"
  by (simp add: sort_fallbacks_by_cw_to_bw_factor_def sort_keys_KeyError)

text \<open>
  Claim C8. The median factor is computed from the fallbacks sorted by
  \<^verbatim>\<open>cw_to_bw_factor\<close>. In the script the key of that sort looks the candidate object
  up in the dictionary of fingerprints: for every list of fallbacks that is not empty,
  \<^verbatim>\<open>calculate_measured_bandwidth\<close> ends with \<^verbatim>\<open>KeyError\<close> and computes no median.
\<close>

theorem calculate_measured_bandwidth_KeyError:
  "fallbacks self \<noteq> [] \<Longrightarrow> calculate_measured_bandwidth self = Inl KeyError"
  by (simp add: calculate_measured_bandwidth_def sort_fallbacks_KeyError)

theorem calculate_measured_bandwidth_KeyError_witness:
  "fallbacks \<lparr> relays = [(''AAAA'', example_candidate)], fallbacks = [example_candidate] \<rparr> \<noteq> []
   \<and> calculate_measured_bandwidth
        \<lparr> relays = [(''AAAA'', example_candidate)], fallbacks = [example_candidate] \<rparr>
      = Inl KeyError"
  using calculate_measured_bandwidth_KeyError
    [of "\<lparr> relays = [(''AAAA'', example_candidate)], fallbacks = [example_candidate] \<rparr>"]
  by simp

text \<open>
  On the empty list the sort does nothing, \<^verbatim>\<open>fallback_median\<close> returns
  \<^verbatim>\<open>None\<close>, and the call of its method raises. So the function always raises.
\<close>

lemma calculate_measured_bandwidth_empty:
  "fallbacks self = [] \<Longrightarrow> calculate_measured_bandwidth self = Inl AttributeError"
  by (simp add: calculate_measured_bandwidth_def sort_fallbacks_by_cw_to_bw_factor_def
        fallback_median_def)

lemma calculate_measured_bandwidth_raises: "isl (calculate_measured_bandwidth self)"
proof (cases "fallbacks self = []")
  case True
  then show ?thesis by (simp add: calculate_measured_bandwidth_empty)
next
  case False
  then show ?thesis by (simp add: calculate_measured_bandwidth_def sort_fallbacks_KeyError)
qed

text \<open>
  The loop of \<^verbatim>\<open>fallback_median\<close> on its own returns the first relay at or after the
  position that has advertised bandwidth, and \<^verbatim>\<open>None\<close> when there is none.
\<close>

lemma median_advance_find:
  "pos \<le> length fbs \<Longrightarrow>
   median_advance fbs pos = find (\<lambda>f. data_advertised_bandwidth f \<noteq> 0) (drop pos fbs)"
proof (induction fbs pos rule: median_advance.induct)
  case (1 fbs pos)
  show ?case
  proof (cases "pos < length fbs")
    case True
    then have d: "drop pos fbs = fbs ! pos # drop (Suc pos) fbs"
      by (simp add: Cons_nth_drop_Suc)
    show ?thesis
      using True 1 d by (subst median_advance.simps) auto
  next
    case False
    then show ?thesis by (subst median_advance.simps) simp
  qed
qed

text \<open>
  So \<^verbatim>\<open>fallback_median\<close>, on a list that is not empty, returns the relay at the low
  median position, or with \<^verbatim>\<open>require_advertised_bandwidth\<close> the first relay from
  that position on that has advertised bandwidth.
\<close>

lemma fallback_median_low:
  assumes "fallbacks self \<noteq> []"
  shows "fallback_median self False = Some (fallbacks self ! ((length (fallbacks self) - 1) div 2))"
    and "fallback_median self True
         = find (\<lambda>f. data_advertised_bandwidth f \<noteq> 0)
             (drop ((length (fallbacks self) - 1) div 2) (fallbacks self))"
proof -
  have "(length (fallbacks self) - 1) div 2 \<le> length (fallbacks self)"
    by simp
  then show "fallback_median self True
         = find (\<lambda>f. data_advertised_bandwidth f \<noteq> 0)
             (drop ((length (fallbacks self) - 1) div 2) (fallbacks self))"
    using assms by (simp add: fallback_median_def Let_def median_advance_find)
  show "fallback_median self False
        = Some (fallbacks self ! ((length (fallbacks self) - 1) div 2))"
    using assms by (simp add: fallback_median_def Let_def)
qed

subsection \<open>The IPv6 address of a candidate\<close>

text \<open>
  The first loop of \<^verbatim>\<open>_compute_ipv6addr\<close> never selects an address: a string is
  not equal to an integer.
\<close>

lemma ipv6_same_port_never: "ipv6_same_port op addrs \<noteq> Inr (Some r)"
  by (induction addrs) (auto split: list.splits)

text \<open>
  Claim C5. The IPv6 address is the first valid one whose port equals the onion-routing
  port, and otherwise the first valid one. On the example the stabilised list holds
  \<^verbatim>\<open>[::1]:443\<close> before \<^verbatim>\<open>[::2]:9001\<close>, the onion-routing port is 9001 and
  \<^verbatim>\<open>[::2]\<close> is valid, yet the constructor selects \<^verbatim>\<open>[::1]\<close> with port 443.
\<close>

theorem compute_ipv6addr_example:
  "Candidate_init example_details = Inr example_candidate
   \<and> data_or_addresses example_candidate = [''1.2.3.4:9001'', ''[::1]:443'', ''[::2]:9001'']
   \<and> orport example_candidate = 9001
   \<and> is_valid_ipv6_address ''[::2]''
   \<and> py_int ''9001'' = Some 9001
   \<and> ipv6addr example_candidate = Some ''[::1]''
   \<and> ipv6orport example_candidate = Some ''443''"
  by code_simp

subsection \<open>Blacklist and whitelist\<close>

text \<open>
  Claim C3. A blacklist entry that lists IPv4, dirport and orport matches a relay whose
  IPv4 and orport agree with it even when the dirport differs. In the script the orport
  is compared only when the entry has no dirport: such an entry does not match.
\<close>

theorem blacklist_orport_not_checked:
  assumes "py_int dp = Some n" and "n \<noteq> dirport c" and "py_int op = Some (orport c)"
  shows "is_in_blacklist c [[(''ipv4'', dirip c), (''dirport'', dp), (''orport'', op)]] = Inr False"
  using assms by (simp add: blacklist_key_def has_key_def entry_int_def)

theorem blacklist_orport_not_checked_witness:
  "py_int ''9030'' = Some 9030 \<and> 9030 \<noteq> dirport example_candidate
   \<and> py_int ''9001'' = Some (orport example_candidate)
   \<and> is_in_blacklist example_candidate
        [[(''ipv4'', ''1.2.3.4''), (''dirport'', ''9030''), (''orport'', ''9001'')]] = Inr False"
proof -
  have a: "py_int ''9030'' = Some 9030" by code_simp
  have b: "9030 \<noteq> dirport example_candidate" by (simp add: example_candidate_def)
  have c: "py_int ''9001'' = Some (orport example_candidate)" by code_simp
  have d: "dirip example_candidate = ''1.2.3.4''" by (simp add: example_candidate_def)
  show ?thesis
    using blacklist_orport_not_checked [OF a b c] a b c d by simp
qed

text \<open>
  Claim C4. A whitelist entry without IPv6 does not match a relay that has an IPv6
  address. In the script that branch logs the variable \<^verbatim>\<open>ipv6\<close>, which is
  assigned only where the entry has an IPv6 value: with one such entry whose fingerprint,
  IPv4, dirport and orport all match, \<^verbatim>\<open>is_in_whitelist\<close> raises
  \<^verbatim>\<open>UnboundLocalError\<close> instead of returning that there is no match.
\<close>

theorem whitelist_gained_ipv6_raises:
  assumes "has_ipv6 c" and "py_int dp = Some (dirport c)" and "py_int op = Some (orport c)"
  shows "is_in_whitelist c
           [[(''id'', fpr c), (''ipv4'', dirip c), (''dirport'', dp), (''orport'', op)]]
         = Inl UnboundLocalError"
  using assms by (simp add: is_in_whitelist_def has_key_def entry_int_def)

theorem whitelist_gained_ipv6_raises_witness:
  "has_ipv6 example_candidate \<and> py_int ''80'' = Some (dirport example_candidate)
   \<and> py_int ''9001'' = Some (orport example_candidate)
   \<and> is_in_whitelist example_candidate
        [[(''id'', ''AAAA''), (''ipv4'', ''1.2.3.4''), (''dirport'', ''80''), (''orport'', ''9001'')]]
      = Inl UnboundLocalError"
proof -
  have a: "has_ipv6 example_candidate" by (simp add: has_ipv6_def example_candidate_def)
  have b: "py_int ''80'' = Some (dirport example_candidate)" by code_simp
  have c: "py_int ''9001'' = Some (orport example_candidate)" by code_simp
  have d: "dirip example_candidate = ''1.2.3.4''" "fpr example_candidate = ''AAAA''"
    by (simp_all add: example_candidate_def)
  show ?thesis
    using whitelist_gained_ipv6_raises [OF a b c] a b c d by simp
qed

text \<open>
  Where \<^verbatim>\<open>is_in_whitelist\<close> returns \<^verbatim>\<open>True\<close>, some entry agrees with the relay
  in fingerprint, IPv4 address, dirport and orport, has an IPv6 value exactly when the relay
  has one, and then the same value. An entry that does so at the head of the list gives
  \<^verbatim>\<open>True\<close>.
\<close>

lemma whitelist_loop_step:
  assumes "whitelist_loop c v (e # rest) = Inr True"
  shows "whitelist_match c e \<or> (\<exists>v'. whitelist_loop c v' rest = Inr True)"
proof -
  from assms obtain eid where eid: "map_of e ''id'' = Some eid"
    by (cases "map_of e ''id''") simp_all
  show ?thesis
  proof (cases "eid = fpr c")
    case False
    with assms eid show ?thesis by auto
  next
    case id: True
    from assms eid id obtain ev4 where ev4: "map_of e ''ipv4'' = Some ev4"
      by (cases "map_of e ''ipv4''") simp_all
    show ?thesis
    proof (cases "ev4 = dirip c")
      case False
      with assms eid id ev4 show ?thesis by auto
    next
      case v4: True
      from assms eid id ev4 v4 obtain dp where dp: "entry_int e ''dirport'' = Inr dp"
        by (cases "entry_int e ''dirport''") simp_all
      show ?thesis
      proof (cases "dp = dirport c")
        case False
        with assms eid id ev4 v4 dp show ?thesis by auto
      next
        case dpe: True
        from assms eid id ev4 v4 dp dpe obtain op where op: "entry_int e ''orport'' = Inr op"
          by (cases "entry_int e ''orport''") simp_all
        show ?thesis
        proof (cases "op = orport c")
          case False
          with assms eid id ev4 v4 dp dpe op show ?thesis by auto
        next
          case ope: True
          have rest: "(if has_key e ''ipv6'' \<and> has_ipv6 c then
                 (if map_of e ''ipv6'' \<noteq> ipv6_of c then whitelist_loop c (ipv6_of c) rest
                  else Inr True)
               else if has_key e ''ipv6'' \<and> \<not> has_ipv6 c then whitelist_loop c v rest
               else if \<not> has_key e ''ipv6'' \<and> has_ipv6 c then
                 (case v of None \<Rightarrow> Inl UnboundLocalError
                  | Some x \<Rightarrow> whitelist_loop c v rest)
               else Inr True) = Inr True"
            using assms eid id ev4 v4 dp dpe op ope by simp
          have base: "map_of e ''id'' = Some (fpr c)" "map_of e ''ipv4'' = Some (dirip c)"
            "entry_int e ''dirport'' = Inr (dirport c)" "entry_int e ''orport'' = Inr (orport c)"
            using eid id ev4 v4 dp dpe op ope by simp_all
          show ?thesis
            using rest base
            by (auto simp: whitelist_match_def split: if_splits option.splits)
        qed
      qed
    qed
  qed
qed

lemma whitelist_loop_True:
  "whitelist_loop c v wl = Inr True \<Longrightarrow> \<exists>e \<in> set wl. whitelist_match c e"
proof (induction wl arbitrary: v)
  case Nil
  then show ?case by simp
next
  case (Cons e rest)
  from whitelist_loop_step [OF Cons.prems]
  show ?case
    using Cons.IH by auto
qed

lemma is_in_whitelist_only_if:
  "is_in_whitelist c relaylist = Inr True \<Longrightarrow> \<exists>e \<in> set relaylist. whitelist_match c e"
  unfolding is_in_whitelist_def by (rule whitelist_loop_True)

lemma whitelist_match_first:
  assumes "whitelist_match c e"
  shows "is_in_whitelist c (e # rest) = Inr True"
proof -
  have base: "map_of e ''id'' = Some (fpr c)" "map_of e ''ipv4'' = Some (dirip c)"
    "entry_int e ''dirport'' = Inr (dirport c)" "entry_int e ''orport'' = Inr (orport c)"
    and sym: "has_key e ''ipv6'' = has_ipv6 c"
    using assms by (simp_all add: whitelist_match_def)
  show ?thesis
  proof (cases "has_ipv6 c")
    case True
    then have "map_of e ''ipv6'' = ipv6_of c"
      using assms by (simp add: whitelist_match_def)
    with True sym base show ?thesis
      by (simp add: is_in_whitelist_def)
  next
    case False
    with sym base show ?thesis
      by (simp add: is_in_whitelist_def)
  qed
qed

subsection \<open>Ingestion of the details document\<close>

lemma add_relay_no_dir_address: "dir_address d = None \<Longrightarrow> add_relay d self = Inr self"
  by (simp add: add_relay_def)

lemma add_relay_raises:
  "dir_address d \<noteq> None \<Longrightarrow> Candidate_init d = Inl e \<Longrightarrow> add_relay d self = Inl e"
  by (simp add: add_relay_def)

lemma add_relay_ingestible: "ingestible d \<Longrightarrow> \<not> isl (add_relay d self)"
  by (cases "Candidate_init d") (auto simp: ingestible_def add_relay_def)

lemma add_details_append:
  "add_details (xs @ ys) self =
     (case add_details xs self of Inl e \<Rightarrow> Inl e | Inr self' \<Rightarrow> add_details ys self')"
  by (induction xs arbitrary: self) (auto split: sum.splits)

lemma add_details_ingestible: "list_all ingestible rs \<Longrightarrow> \<not> isl (add_details rs self)"
proof (induction rs arbitrary: self)
  case Nil
  then show ?case by simp
next
  case (Cons r rs)
  then have "\<not> isl (add_relay r self)" by (simp add: add_relay_ingestible)
  then obtain self' where "add_relay r self = Inr self'"
    by (cases "add_relay r self") auto
  with Cons show ?case by simp
qed

lemma Candidate_init_missing:
  "fingerprint d = None \<Longrightarrow> Candidate_init d = Inl (MissingField ''fingerprint'')"
  "fingerprint d \<noteq> None \<Longrightarrow> nickname d = None \<Longrightarrow>
     Candidate_init d = Inl (MissingField ''nickname'')"
  "fingerprint d \<noteq> None \<Longrightarrow> nickname d \<noteq> None \<Longrightarrow> last_changed_address_or_port d = None \<Longrightarrow>
     Candidate_init d = Inl (MissingField ''last_changed_address_or_port'')"
  "fingerprint d \<noteq> None \<Longrightarrow> nickname d \<noteq> None \<Longrightarrow> last_changed_address_or_port d \<noteq> None \<Longrightarrow>
     consensus_weight d = None \<Longrightarrow> Candidate_init d = Inl (MissingField ''consensus_weight'')"
  "fingerprint d \<noteq> None \<Longrightarrow> nickname d \<noteq> None \<Longrightarrow> last_changed_address_or_port d \<noteq> None \<Longrightarrow>
     consensus_weight d \<noteq> None \<Longrightarrow> or_addresses d = None \<Longrightarrow>
     Candidate_init d = Inl (MissingField ''or_addresses'')"
  by (auto simp: Candidate_init_def)

text \<open>
  Without an address on the directory's IP address the constructor finds no onion-routing
  port and raises.
\<close>

lemma Candidate_init_no_orport:
  assumes "fingerprint d = Some f" and "nickname d \<noteq> None"
    and "last_changed_address_or_port d \<noteq> None" and "consensus_weight d \<noteq> None"
    and "or_addresses d = Some addrs" and "dir_address d = Some da"
    and "split_dirport da = Inr (dip, dport)"
    and "compute_orport dip (stable_sort_or_addresses addrs) = Inr None"
  shows "Candidate_init d = Inl (NoOrPort f)"
  using assms by (auto simp: Candidate_init_def Let_def)

text \<open>
  Claim C1, as amended. A record without a directory address is skipped, and the records
  after it are processed as if it were not there. A record that has a directory address
  and on which the constructor raises (a required field is missing, or there is no
  onion-routing port) ends the loop with that exception: the records after it are not
  read. Here the records \<open>pre\<close> before it are ones the loop gets past.
\<close>

theorem add_details_failure:
  assumes "list_all ingestible pre"
  shows "(dir_address r = None \<longrightarrow>
            add_details (pre @ r # rs) self = add_details (pre @ rs) self)
         \<and> (dir_address r \<noteq> None \<and> Candidate_init r = Inl e \<longrightarrow>
              add_details (pre @ r # rs) self = Inl e)"
proof -
  from assms obtain self' where pre: "add_details pre self = Inr self'"
    using add_details_ingestible [of pre self] by (cases "add_details pre self") auto
  show ?thesis
    by (simp add: add_details_append pre add_relay_def)
qed

text \<open>
  The claim as stated fails: a record without nickname, followed by a record that is
  ingested when it comes alone, ends the run with the first record's exception.
\<close>

theorem add_details_failure_counterexample:
  "add_details [example_details \<lparr> nickname := None \<rparr>, example_details]
       \<lparr> relays = [], fallbacks = [] \<rparr>
     = Inl (MissingField ''nickname'')
   \<and> add_details [example_details] \<lparr> relays = [], fallbacks = [] \<rparr>
     = Inr \<lparr> relays = [(''AAAA'', example_candidate)], fallbacks = [] \<rparr>"
  by code_simp

theorem add_details_failure_witness:
  "list_all ingestible [example_details]
   \<and> dir_address (example_details \<lparr> dir_address := None \<rparr>) = None
   \<and> add_details [example_details, example_details \<lparr> dir_address := None \<rparr>, example_details]
        \<lparr> relays = [], fallbacks = [] \<rparr>
      = add_details [example_details, example_details] \<lparr> relays = [], fallbacks = [] \<rparr>
   \<and> dir_address (example_details \<lparr> nickname := None \<rparr>) \<noteq> None
   \<and> Candidate_init (example_details \<lparr> nickname := None \<rparr>) = Inl (MissingField ''nickname'')
   \<and> add_details [example_details, example_details \<lparr> nickname := None \<rparr>, example_details]
        \<lparr> relays = [], fallbacks = [] \<rparr>
      = Inl (MissingField ''nickname'')"
proof -
  have h: "list_all ingestible [example_details]"
    by (simp add: ingestible_def Candidate_init_example)
  have a: "dir_address (example_details \<lparr> dir_address := None \<rparr>) = None" by simp
  have b: "dir_address (example_details \<lparr> nickname := None \<rparr>) \<noteq> None"
    by (simp add: example_details_def)
  have c: "Candidate_init (example_details \<lparr> nickname := None \<rparr>) = Inl (MissingField ''nickname'')"
    by (simp add: Candidate_init_missing(2) example_details_def)
  show ?thesis
    using add_details_failure [OF h, where r = "example_details \<lparr> dir_address := None \<rparr>"
        and rs = "[example_details]" and self = "\<lparr> relays = [], fallbacks = [] \<rparr>"]
      add_details_failure [OF h, where r = "example_details \<lparr> nickname := None \<rparr>"
        and e = "MissingField ''nickname''" and rs = "[example_details]"
        and self = "\<lparr> relays = [], fallbacks = [] \<rparr>"]
      h a b c
    by simp
qed

subsection \<open>The report of a short list\<close>

text \<open>
  \<^verbatim>\<open>summarise_fallbacks\<close>, called with at least one and fewer than
  \<^verbatim>\<open>MIN_FALLBACK_COUNT\<close> fallbacks whose measured bandwidth is set, returns a
  summary that ends with the \<^verbatim>\<open>#error\<close> directive.
\<close>

lemma measured_bandwidth_of_set:
  "data_measured_bandwidth c \<noteq> None \<Longrightarrow> \<exists>bw. measured_bandwidth_of (Some c) = Inr bw"
  by (auto simp: measured_bandwidth_of_def)

lemma summarise_fallbacks_low:
  assumes ne: "fallbacks self \<noteq> []"
    and low: "int (length (fallbacks self)) < MIN_FALLBACK_COUNT"
    and bw: "list_all (\<lambda>c. data_measured_bandwidth c \<noteq> None) (fallbacks self)"
  shows "\<exists>pre. summarise_fallbacks fmt self eligible_count guard_count target_count max_count
           = Inr (pre @ error_directive (int (length (fallbacks self))))"
proof -
  have "data_measured_bandwidth (last (fallbacks self)) \<noteq> None"
    using ne bw by (simp add: list_all_iff)
  then obtain min_bw where mn: "measured_bandwidth_of (fallback_min self) = Inr min_bw"
    using ne measured_bandwidth_of_set by (auto simp: fallback_min_def)
  have "data_measured_bandwidth (hd (fallbacks self)) \<noteq> None"
    using ne bw by (simp add: list_all_iff)
  then obtain max_bw where mx: "measured_bandwidth_of (fallback_max self) = Inr max_bw"
    using ne measured_bandwidth_of_set by (auto simp: fallback_max_def)
  show ?thesis
    unfolding summarise_fallbacks_def Let_def mn mx error_directive_def
    using low by (simp only: sum.case if_True append_assoc [symmetric]) blast
qed

text \<open>
  No run gets that far. \<^verbatim>\<open>list_fallbacks\<close> calls
  \<^verbatim>\<open>calculate_measured_bandwidth\<close> before the summary, and that call raises on
  every list: whatever the documents and the lists are, the run ends with an exception,
  having printed nothing or only the summary of the filters.
\<close>

lemma calculate_measured_bandwidth_Inl: "\<exists>e. calculate_measured_bandwidth self = Inl e"
  using calculate_measured_bandwidth_raises [of self]
  by (cases "calculate_measured_bandwidth self") simp_all

lemma list_fallbacks_raises:
  "\<exists>printed e.
     list_fallbacks fmt dl_check now details_doc uptime_doc whitelist blacklist = (printed, Some e)
     \<and> (printed = [] \<or> (\<exists>n m. printed = [Text (summarise_filters n m)]))"
proof (cases "add_relays now details_doc uptime_doc \<lparr> relays = [], fallbacks = [] \<rparr>")
  case (Inl e)
  then show ?thesis by (simp add: list_fallbacks_def)
next
  case (Inr candidates)
  show ?thesis
  proof (cases "compute_fallbacks now candidates")
    case (Inl e)
    with Inr show ?thesis by (simp add: list_fallbacks_def Let_def)
  next
    case c1: (Inr candidates1)
    show ?thesis
    proof (cases "apply_filter_lists whitelist blacklist candidates1")
      case (Inl e)
      with Inr c1 show ?thesis by (simp add: list_fallbacks_def Let_def)
    next
      case c2: (Inr r)
      obtain candidates2 excluded_count where r: "r = (candidates2, excluded_count)"
        by (cases r)
      obtain e where "calculate_measured_bandwidth candidates2 = Inl e"
        using calculate_measured_bandwidth_Inl by blast
      with Inr c1 c2 r show ?thesis
        by (simp add: list_fallbacks_def Let_def) blast
    qed
  qed
qed


subsection \<open>The IPv6 validator\<close>












text \<open>
  Outside those characters the class \<^verbatim>\<open>[0-9a-fA-f]\<close> of the regular expression
  admits more than hexadecimal digits; and an address of eight groups has 7 colons.
\<close>

lemma is_valid_ipv6_address_G: "is_valid_ipv6_address ''[G::1]''"
  by code_simp

lemma is_valid_ipv6_address_eight_groups:
  "is_valid_ipv6_address ''[1:2:3:4:5:6:7:8]'' \<and> \<not> spec_valid_ipv6 ''[1:2:3:4:5:6:7:8]''"
  by code_simp

subsection \<open>Extraction of a history\<close>

text \<open>
  The watermark \<^verbatim>\<open>newest\<close> never moves forward; a period all of whose time stamps
  are later than the watermark leaves the state as it is; and after a period with at least
  one value the watermark is at or before that period's oldest time stamp.
\<close>

lemma extract_values_newest:
  "fst (snd (extract_values now iv vs (ts, nw, gh))) \<le> nw"
proof (induction vs arbitrary: ts nw gh)
  case Nil
  then show ?case by simp
next
  case (Cons v vs)
  show ?case
  proof (cases "ts \<le> nw")
    case True
    then show ?thesis
      using Cons [of "ts - iv" ts] by (simp add: Let_def) (meson order_trans)
  next
    case False
    then show ?thesis using Cons [of "ts - iv" nw gh] by simp
  qed
qed



lemma extract_periods_newest: "fst (extract_periods now ps (nw, gh)) \<le> nw"
proof (induction ps arbitrary: nw gh)
  case Nil
  then show ?case by simp
next
  case (Cons ph ps)
  obtain p h where ph: "ph = (p, h)" by (cases ph)
  obtain ts1 nw1 gh1 where step:
    "extract_values now (timedelta_seconds (h_interval h)) (rev (h_values h)) (h_last h, nw, gh)
     = (ts1, nw1, gh1)"
    by (rule prod_cases3)
  have "nw1 \<le> nw"
    using extract_values_newest
      [of now "timedelta_seconds (h_interval h)" "rev (h_values h)" "h_last h" nw gh]
    by (simp add: step)
  moreover have "fst (extract_periods now ps (nw1, gh1)) \<le> nw1"
    by (rule Cons.IH)
  ultimately show ?case by (simp add: ph step)
qed







text \<open>
  The comparison is not strict: a coarser sample whose time stamp equals the oldest time
  stamp of the finer period is extracted.
\<close>

lemma example_boundary:
  "extract_generic_history 1000000000
     [(''1_month'', example_coarse \<lparr> h_last := 750000000 \<rparr>), (''1_week'', example_fine)]
   = [\<lparr> sample_age = 200, sample_length = 50, sample_value = Some 4 \<rparr>,
      \<lparr> sample_age = 250, sample_length = 50, sample_value = Some 3 \<rparr>,
      \<lparr> sample_age = 300, sample_length = 50, sample_value = Some 2 \<rparr>,
      \<lparr> sample_age = 350, sample_length = 50, sample_value = Some 1 \<rparr>,
      \<lparr> sample_age = 350, sample_length = 100, sample_value = Some 5 \<rparr>]"
  by code_simp

end
